theory Spec2Isabelle
  imports Complex_Main
begin

section \<open>The Individual agent of the culture network model\<close>

text \<open>
  A shallow embedding of \<^verbatim>\<open>src/package/model/individuals.py\<close>. The class
  \<^verbatim>\<open>Individual\<close> becomes a record, every method a function from the state to
  an error or the updated state, and the module-wide random generator an explicit stream
  of draws that is passed in and handed back.

  Numbers: numpy's float64 is idealised as \<^typ>\<open>real\<close>, so arithmetic is exact and
  there is neither rounding nor infinity. The properties proved below are those that do
  not depend on how float64 rounds: which attributes a method assigns, the shapes and
  lengths of the arrays, which inputs raise, the clipping of the thresholds, and
  equations whose two sides are the same expression of the code. What the code computes
  to the last bit (a sum of products that rounds away from the exact value, for
  instance) is outside this model. The one place where numpy turns real inputs into nan
  (the mean of an empty array) is an outcome of its own, \<open>NanResult\<close>.

  Arrays: the arrays of the agent are numpy scalars or one-dimensional arrays
  (\<open>nd\<close>); binary operations follow numpy's broadcasting between these two shapes.
  The window of remembered attitude vectors is a two-dimensional array (\<open>matrix\<close>).
\<close>

subsection \<open>Errors\<close>

datatype error =
    IndexError
  | ValueError
  | TypeError
  | AttributeError
  | ZeroDivisionError
  | NanResult

definition and_then :: "error + 'a \<Rightarrow> ('a \<Rightarrow> error + 'b) \<Rightarrow> error + 'b" where
  "and_then m f = (case m of Inl e \<Rightarrow> Inl e | Inr x \<Rightarrow> f x)"

subsection \<open>numpy scalars and one-dimensional arrays\<close>

datatype nd = Scalar real | Vec "real list"

text \<open>An operation of a Python number with an array, such as \<^verbatim>\<open>1 - phi_array\<close>
  or \<^verbatim>\<open>0.7 * pU\<close>, keeps the shape.\<close>

fun nd_map :: "(real \<Rightarrow> real) \<Rightarrow> nd \<Rightarrow> nd" where
  "nd_map f (Scalar a) = Scalar (f a)"
| "nd_map f (Vec xs) = Vec (map f xs)"

text \<open>An elementwise operation of two arrays. Shapes \<open>()\<close> and \<open>(n,)\<close> broadcast to
  \<open>(n,)\<close>; \<open>(n,)\<close> and \<open>(m,)\<close> broadcast when they are equal or one of them is 1, and
  raise ValueError otherwise.\<close>

fun broadcast :: "(real \<Rightarrow> real \<Rightarrow> real) \<Rightarrow> nd \<Rightarrow> nd \<Rightarrow> error + nd" where
  "broadcast f (Scalar a) (Scalar b) = Inr (Scalar (f a b))"
| "broadcast f (Scalar a) (Vec ys) = Inr (Vec (map (f a) ys))"
| "broadcast f (Vec xs) (Scalar b) = Inr (Vec (map (\<lambda>x. f x b) xs))"
| "broadcast f (Vec xs) (Vec ys) =
     (if length xs = length ys then Inr (Vec (map2 f xs ys))
      else if length xs = 1 then Inr (Vec (map (f (hd xs)) ys))
      else if length ys = 1 then Inr (Vec (map (\<lambda>x. f x (hd ys)) xs))
      else Inl ValueError)"

definition nd_add :: "nd \<Rightarrow> nd \<Rightarrow> error + nd" where
  "nd_add = broadcast (+)"

definition nd_sub :: "nd \<Rightarrow> nd \<Rightarrow> error + nd" where
  "nd_sub = broadcast (-)"

definition nd_mul :: "nd \<Rightarrow> nd \<Rightarrow> error + nd" where
  "nd_mul = broadcast (*)"

text \<open>\<^verbatim>\<open>x[i]\<close> for an index \<open>i \<ge> 0\<close>: a scalar cannot be indexed.\<close>

fun nd_index :: "nd \<Rightarrow> nat \<Rightarrow> error + real" where
  "nd_index (Scalar a) i = Inl IndexError"
| "nd_index (Vec xs) i = (if i < length xs then Inr (xs ! i) else Inl IndexError)"

text \<open>\<^verbatim>\<open>len(x)\<close> and \<^verbatim>\<open>list(x)\<close>: a scalar has no length and is not iterable.\<close>

fun nd_len :: "nd \<Rightarrow> error + nat" where
  "nd_len (Scalar a) = Inl TypeError"
| "nd_len (Vec xs) = Inr (length xs)"

fun nd_list :: "nd \<Rightarrow> error + real list" where
  "nd_list (Scalar a) = Inl TypeError"
| "nd_list (Vec xs) = Inr xs"

text \<open>\<^verbatim>\<open>np.mean\<close>: the mean of an empty array is nan.\<close>

fun nd_mean :: "nd \<Rightarrow> error + real" where
  "nd_mean (Scalar a) = Inr a"
| "nd_mean (Vec xs) =
     (if xs = [] then Inl NanResult else Inr (sum_list xs / real (length xs)))"

text \<open>\<^verbatim>\<open>np.clip(x, 0, 1)\<close>.\<close>

definition clip01 :: "real \<Rightarrow> real" where
  "clip01 x = min (max x 0) 1"

definition nd_clip :: "nd \<Rightarrow> nd" where
  "nd_clip = nd_map clip01"

text \<open>The elements of an array.\<close>

fun nd_elems :: "nd \<Rightarrow> real list" where
  "nd_elems (Scalar a) = [a]"
| "nd_elems (Vec xs) = xs"

text \<open>Python's \<^verbatim>\<open>sum\<close> adds from the left, starting at 0.\<close>

definition py_sum :: "real list \<Rightarrow> real" where
  "py_sum xs = foldl (+) 0 xs"

subsection \<open>Two-dimensional arrays\<close>

text \<open>A matrix keeps its number of columns beside its rows, as a numpy array of shape
  \<open>(0, n)\<close> does.\<close>

datatype matrix = Matrix (ncols: nat) (rows: "real list list")

text \<open>The row that \<^verbatim>\<open>np.tile(x, (k, 1))\<close> repeats and that
  \<^verbatim>\<open>np.asarray([x])\<close> holds.\<close>

fun nd_row :: "nd \<Rightarrow> real list" where
  "nd_row (Scalar a) = [a]"
| "nd_row (Vec xs) = xs"

text \<open>\<^verbatim>\<open>np.tile(x, (k, 1))\<close>: a negative repetition count is refused.\<close>

definition tile_rows :: "nd \<Rightarrow> int \<Rightarrow> error + matrix" where
  "tile_rows x k =
     (if k < 0 then Inl ValueError
      else Inr (Matrix (length (nd_row x)) (replicate (nat k) (nd_row x))))"

text \<open>\<^verbatim>\<open>np.matmul\<close> of a vector with a vector (a Python list of floats is
  converted to an array) and of a vector with a matrix. The contracted lengths must
  agree: matmul does not broadcast them.\<close>

definition matmul_vec :: "real list \<Rightarrow> real list \<Rightarrow> error + real" where
  "matmul_vec w xs =
     (if length w = length xs then Inr (sum_list (map2 (*) w xs)) else Inl ValueError)"

definition column :: "real list list \<Rightarrow> nat \<Rightarrow> real list" where
  "column rs j = map (\<lambda>r. r ! j) rs"

definition matmul_mat :: "real list \<Rightarrow> matrix \<Rightarrow> error + nd" where
  "matmul_mat w A =
     (if length w = length (rows A)
      then Inr (Vec (map (\<lambda>j. sum_list (map2 (*) w (column (rows A) j))) [0..<ncols A]))
      else Inl ValueError)"

subsection \<open>The random generator\<close>

text \<open>The module's generator \<^verbatim>\<open>rng\<close> is the stream of the normal draws it will
  return. \<^verbatim>\<open>rng.normal(loc=0, scale=0.03, size=n)\<close> takes the next \<open>n\<close> of them;
  every real number is a possible draw.\<close>

type_synonym rng = "nat \<Rightarrow> real"

definition normal :: "rng \<Rightarrow> nat \<Rightarrow> real list \<times> rng" where
  "normal g n = (map g [0..<n], (\<lambda>i. g (i + n)))"

subsection \<open>The state of an agent\<close>

text \<open>The history attributes exist only when the agent was constructed with
  \<^verbatim>\<open>save_timeseries_data\<close>; \<open>attitudes_matrix\<close> and \<open>attitudes_star\<close> exist only
  when it was constructed in the mode \<^verbatim>\<open>"behavioural_independence"\<close>. A missing
  attribute is \<open>None\<close>, and reading it raises AttributeError.\<close>

record history =
  history_behaviour_values :: "real list list"
  history_behaviour_attitudes :: "real list list"
  history_behaviour_thresholds :: "real list list"
  history_TA :: "nd list"
  history_thresholdsTA :: "nd list"
  history_av_behaviour :: "real list"
  history_identity :: "real list"
  history_individual_carbon_emissions_flow :: "real list"
  history_behavioural_carbon_emissions :: "real list list"

record individual =
  attitudes :: nd
  initial_first_attitude :: real
  thresholds :: nd
  normalized_discount_vector :: "real list"
  cultural_inertia :: int
  pU :: nd
  pC :: nd
  pR :: nd
  thresholdspU :: nd
  thresholdspC :: nd
  thresholdspR :: nd
  M :: int
  t :: int
  save_timeseries_data :: bool
  compression_factor :: int
  phi_array :: nd
  alpha_change :: string
  id_n :: int
  green_fountain_state :: int
  attitudes_matrix :: "matrix option"
  attitudes_star :: "nd option"
  values_M :: nd
  av_behaviour :: real
  av_behaviour_list :: "real list"
  identity :: real
  initial_carbon_emissions :: real
  behavioural_carbon_emissions :: "real list"
  individual_carbon_emissions_flow :: real
  histories :: "history option"

text \<open>The dictionary \<^verbatim>\<open>individual_params\<close>, with the six keys the constructor reads.\<close>

record individual_params =
  param_M :: int
  param_t :: int
  param_save_timeseries_data :: bool
  param_compression_factor :: int
  param_phi_array :: nd
  param_alpha_change :: string

subsection \<open>Derived quantities\<close>

text \<open>\<^verbatim>\<open>0.7 * pU - 0.2 * pC - 0.1 * pR\<close>, for the propensities and for their
  thresholds.\<close>

definition appraisal :: "nd \<Rightarrow> nd \<Rightarrow> nd \<Rightarrow> error + nd" where
  "appraisal u c r =
     and_then (nd_sub (nd_map (\<lambda>x. 0.7 * x) u) (nd_map (\<lambda>x. 0.2 * x) c))
       (\<lambda>d. nd_sub d (nd_map (\<lambda>x. 0.1 * x) r))"

definition TA :: "individual \<Rightarrow> error + nd" where
  "TA s = appraisal (pU s) (pC s) (pR s)"

definition thresholdsTA :: "individual \<Rightarrow> error + nd" where
  "thresholdsTA s = appraisal (thresholdspU s) (thresholdspC s) (thresholdspR s)"

text \<open>\<^verbatim>\<open>np.mean((1 - self.attitudes) ** 2)\<close>.\<close>

definition mean_sq_distance :: "nd \<Rightarrow> error + real" where
  "mean_sq_distance a = nd_mean (nd_map (\<lambda>x. (1 - x)\<^sup>2) a)"

definition calc_av_behaviour :: "individual \<Rightarrow> error + individual" where
  "calc_av_behaviour s =
     and_then (mean_sq_distance (attitudes s)) (\<lambda>m. Inr (s\<lparr>av_behaviour := m\<rparr>))"

text \<open>\<^verbatim>\<open>pop()\<close> fails on an empty list.\<close>

definition update_av_behaviour_list :: "individual \<Rightarrow> error + individual" where
  "update_av_behaviour_list s =
     (if av_behaviour_list s = [] then Inl IndexError
      else Inr (s\<lparr>av_behaviour_list := av_behaviour s # butlast (av_behaviour_list s)\<rparr>))"

definition calc_identity :: "individual \<Rightarrow> error + real" where
  "calc_identity s = matmul_vec (normalized_discount_vector s) (av_behaviour_list s)"

text \<open>\<^verbatim>\<open>np.vstack([np.asarray([self.attitudes]), self.attitudes_matrix[:-1,:]])\<close>:
  the new row must be as wide as the matrix.\<close>

definition update_attitudes_matrix :: "individual \<Rightarrow> error + individual" where
  "update_attitudes_matrix s =
     (case attitudes_matrix s of
        None \<Rightarrow> Inl AttributeError
      | Some A \<Rightarrow>
          (if length (nd_row (attitudes s)) = ncols A
           then Inr (s\<lparr>attitudes_matrix :=
                        Some (Matrix (ncols A) (nd_row (attitudes s) # butlast (rows A)))\<rparr>)
           else Inl ValueError))"

definition calc_attitudes_star :: "individual \<Rightarrow> error + nd" where
  "calc_attitudes_star s =
     (case attitudes_matrix s of
        None \<Rightarrow> Inl AttributeError
      | Some A \<Rightarrow> matmul_mat (normalized_discount_vector s) A)"

definition update_values :: "individual \<Rightarrow> error + individual" where
  "update_values s =
     and_then (nd_sub (attitudes s) (thresholds s)) (\<lambda>d.
     and_then (TA s) (\<lambda>ta.
     and_then (thresholdsTA s) (\<lambda>tta.
     and_then (nd_sub ta tta) (\<lambda>e.
     and_then (nd_add (nd_map (\<lambda>x. 0.5 * x) d) (nd_map (\<lambda>x. 0.5 * x) e)) (\<lambda>v.
     Inr (s\<lparr>values_M := v\<rparr>))))))"

subsection \<open>Social learning\<close>

text \<open>The expression shared by the four update methods:
  \<^verbatim>\<open>(1 - self.phi_array)*old + (self.phi_array)*(component)\<close>.\<close>

definition social_learning :: "nd \<Rightarrow> nd \<Rightarrow> nd \<Rightarrow> error + nd" where
  "social_learning phi old component =
     and_then (nd_mul (nd_map (\<lambda>p. 1 - p) phi) old) (\<lambda>kept.
     and_then (nd_mul phi component) (\<lambda>learnt.
     nd_add kept learnt))"

definition update_attitudes :: "nd \<Rightarrow> individual \<Rightarrow> error + individual" where
  "update_attitudes social_component s =
     and_then (social_learning (phi_array s) (attitudes s) social_component)
       (\<lambda>a. Inr (s\<lparr>attitudes := a\<rparr>))"

definition update_pU :: "nd \<Rightarrow> individual \<Rightarrow> error + individual" where
  "update_pU social_component s =
     and_then (social_learning (phi_array s) (pU s) social_component)
       (\<lambda>a. Inr (s\<lparr>pU := a\<rparr>))"

definition update_pC :: "nd \<Rightarrow> individual \<Rightarrow> error + individual" where
  "update_pC TA_component s =
     and_then (social_learning (phi_array s) (pC s) TA_component)
       (\<lambda>a. Inr (s\<lparr>pC := a\<rparr>))"

definition update_pR :: "nd \<Rightarrow> individual \<Rightarrow> error + individual" where
  "update_pR TA_component s =
     and_then (social_learning (phi_array s) (pR s) TA_component)
       (\<lambda>a. Inr (s\<lparr>pR := a\<rparr>))"

subsection \<open>The random walk of the thresholds\<close>

definition update_thresholds :: "individual \<Rightarrow> rng \<Rightarrow> error + individual \<times> rng" where
  "update_thresholds s g =
     and_then (nd_len (thresholds s)) (\<lambda>n.
       (case normal g n of (delta_thresholds, g') \<Rightarrow>
          and_then (nd_add (thresholds s) (Vec delta_thresholds)) (\<lambda>moved.
          Inr (s\<lparr>thresholds := nd_clip moved\<rparr>, g'))))"

definition update_thresholdTA :: "individual \<Rightarrow> rng \<Rightarrow> error + individual \<times> rng" where
  "update_thresholdTA s g =
     (case normal g 3 of (delta_TA, g') \<Rightarrow>
        Inr (s\<lparr>thresholdspU := nd_clip (nd_map (\<lambda>x. x + delta_TA ! 0) (thresholdspU s)),
                thresholdspC := nd_clip (nd_map (\<lambda>x. x + delta_TA ! 1) (thresholdspC s)),
                thresholdspR := nd_clip (nd_map (\<lambda>x. x + delta_TA ! 2) (thresholdspR s))\<rparr>,
             g'))"

subsection \<open>Emissions\<close>

text \<open>\<^verbatim>\<open>[((1-self.values[i])/2) for i in range(self.M)]\<close>: the comprehension
  stops with IndexError at the first index that \<open>values\<close> does not have.\<close>

fun behavioural_emissions :: "nd \<Rightarrow> nat list \<Rightarrow> error + real list" where
  "behavioural_emissions v [] = Inr []"
| "behavioural_emissions v (i # is) =
     and_then (nd_index v i) (\<lambda>x.
     and_then (behavioural_emissions v is) (\<lambda>rest.
     Inr ((1 - x) / 2 # rest)))"

definition calc_total_emissions_flow :: "individual \<Rightarrow> error + real \<times> real list" where
  "calc_total_emissions_flow s =
     and_then (behavioural_emissions (values_M s) [0..<nat (M s)])
       (\<lambda>es. Inr (py_sum es, es))"

subsection \<open>History\<close>

text \<open>The method appends to eight of the nine logs; \<open>history_thresholdsTA\<close> is not
  among them.\<close>

definition save_timeseries_data_individual :: "individual \<Rightarrow> error + individual" where
  "save_timeseries_data_individual s =
     (case histories s of
        None \<Rightarrow> Inl AttributeError
      | Some h \<Rightarrow>
          and_then (nd_list (values_M s)) (\<lambda>vs.
          and_then (nd_list (attitudes s)) (\<lambda>as.
          and_then (nd_list (thresholds s)) (\<lambda>ths.
          and_then (TA s) (\<lambda>ta.
          and_then (nd_list ta) (\<lambda>tas.
          Inr (s\<lparr>histories := Some (h\<lparr>
                 history_behaviour_values := history_behaviour_values h @ [vs],
                 history_behaviour_attitudes := history_behaviour_attitudes h @ [as],
                 history_behaviour_thresholds := history_behaviour_thresholds h @ [ths],
                 history_TA := history_TA h @ [Vec tas],
                 history_identity := history_identity h @ [identity s],
                 history_av_behaviour := history_av_behaviour h @ [av_behaviour s],
                 history_individual_carbon_emissions_flow :=
                   history_individual_carbon_emissions_flow h
                     @ [individual_carbon_emissions_flow s],
                 history_behavioural_carbon_emissions :=
                   history_behavioural_carbon_emissions h
                     @ [behavioural_carbon_emissions s]\<rparr>)\<rparr>)))))))"

subsection \<open>One time step\<close>

text \<open>The branch on the mode: the mode \<^verbatim>\<open>"behavioural_independence"\<close> moves the
  window of attitude vectors, every other mode walks the thresholds and moves the window of
  \<open>av_behaviour\<close>.\<close>

definition mode_update :: "individual \<Rightarrow> rng \<Rightarrow> error + individual \<times> rng" where
  "mode_update s g =
     (if alpha_change s = ''behavioural_independence'' then
        and_then (update_attitudes_matrix s) (\<lambda>s.
        and_then (calc_attitudes_star s) (\<lambda>star.
        Inr (s\<lparr>attitudes_star := Some star\<rparr>, g)))
      else
        and_then (update_thresholds s g) (\<lambda>(s, g).
        and_then (update_thresholdTA s g) (\<lambda>(s, g).
        and_then (calc_av_behaviour s) (\<lambda>s.
        and_then (update_av_behaviour_list s) (\<lambda>s.
        and_then (calc_identity s) (\<lambda>i.
        Inr (s\<lparr>identity := i\<rparr>, g)))))))"

text \<open>\<^verbatim>\<open>(self.save_timeseries_data) and (self.t % self.compression_factor == 0)\<close>:
  the remainder is taken only when the flag is set, and a stride of 0 raises.\<close>

definition save_if_due :: "individual \<Rightarrow> error + individual" where
  "save_if_due s =
     (if save_timeseries_data s then
        (if compression_factor s = 0 then Inl ZeroDivisionError
         else if t s mod compression_factor s = 0 then save_timeseries_data_individual s
         else Inr s)
      else Inr s)"

definition next_step ::
  "int \<Rightarrow> nd \<Rightarrow> nd \<times> nd \<times> nd \<Rightarrow> individual \<Rightarrow> rng \<Rightarrow> error + individual \<times> rng" where
  "next_step tn social_component TA_component s g =
     (case TA_component of (TA_component_pU, TA_component_pC, TA_component_pR) \<Rightarrow>
        and_then (update_values (s\<lparr>t := tn\<rparr>)) (\<lambda>s.
        and_then (update_attitudes social_component s) (\<lambda>s.
        and_then (update_pU TA_component_pU s) (\<lambda>s.
        and_then (update_pC TA_component_pC s) (\<lambda>s.
        and_then (update_pR TA_component_pR s) (\<lambda>s.
        and_then (mode_update s g) (\<lambda>(s, g).
        and_then (calc_total_emissions_flow s) (\<lambda>(total, es).
        and_then (save_if_due (s\<lparr>individual_carbon_emissions_flow := total,
                                  behavioural_carbon_emissions := es\<rparr>)) (\<lambda>s.
        Inr (s, g))))))))))"

subsection \<open>Construction\<close>

text \<open>The constructor assigns the attributes one after the other. The model starts from
  a record in which the attributes assigned later hold a placeholder (\<open>Scalar 0\<close>, \<open>0\<close>,
  \<open>[]\<close>, \<open>None\<close>) that is not read before its assignment.
  \<^verbatim>\<open>self.attitudes[0]\<close> needs a first element; \<^verbatim>\<open>[x] * n\<close> is empty for
  \<open>n \<le> 0\<close>.\<close>

definition init_histories :: "individual \<Rightarrow> error + individual" where
  "init_histories s =
     and_then (nd_list (values_M s)) (\<lambda>vs.
     and_then (nd_list (attitudes s)) (\<lambda>as.
     and_then (nd_list (thresholds s)) (\<lambda>ths.
     and_then (TA s) (\<lambda>ta.
     and_then (thresholdsTA s) (\<lambda>tta.
     Inr (s\<lparr>histories := Some \<lparr>
            history_behaviour_values = [vs],
            history_behaviour_attitudes = [as],
            history_behaviour_thresholds = [ths],
            history_TA = [ta],
            history_thresholdsTA = [tta],
            history_av_behaviour = [av_behaviour s],
            history_identity = [identity s],
            history_individual_carbon_emissions_flow = [individual_carbon_emissions_flow s],
            history_behavioural_carbon_emissions = [behavioural_carbon_emissions s]\<rparr>\<rparr>))))))"

definition init_memory :: "individual \<Rightarrow> error + individual" where
  "init_memory s =
     (if alpha_change s = ''behavioural_independence'' then
        and_then (tile_rows (attitudes s) (cultural_inertia s)) (\<lambda>A.
        and_then (calc_attitudes_star (s\<lparr>attitudes_matrix := Some A\<rparr>)) (\<lambda>star.
        Inr (s\<lparr>attitudes_matrix := Some A, attitudes_star := Some star\<rparr>)))
      else Inr s)"

definition Individual_init ::
  "individual_params \<Rightarrow> nd \<Rightarrow> nd \<Rightarrow> real list \<Rightarrow> int \<Rightarrow> nd \<Rightarrow> nd \<Rightarrow> nd \<Rightarrow> nd \<Rightarrow> nd \<Rightarrow> nd \<Rightarrow> int
     \<Rightarrow> error + individual" where
  "Individual_init params init_data_attitudes init_data_thresholds
       discount_vector inertia init_data_pU init_data_pC init_data_pR
       init_data_thresholdspU init_data_thresholdspC init_data_thresholdspR n =
     and_then (nd_index init_data_attitudes 0) (\<lambda>first.
     and_then (init_memory
       \<lparr>attitudes = init_data_attitudes,
        initial_first_attitude = first,
        thresholds = init_data_thresholds,
        normalized_discount_vector = discount_vector,
        cultural_inertia = inertia,
        pU = init_data_pU,
        pC = init_data_pC,
        pR = init_data_pR,
        thresholdspU = init_data_thresholdspU,
        thresholdspC = init_data_thresholdspC,
        thresholdspR = init_data_thresholdspR,
        M = param_M params,
        t = param_t params,
        save_timeseries_data = param_save_timeseries_data params,
        compression_factor = param_compression_factor params,
        phi_array = param_phi_array params,
        alpha_change = param_alpha_change params,
        id_n = n,
        green_fountain_state = 0,
        attitudes_matrix = None,
        attitudes_star = None,
        values_M = Scalar 0,
        av_behaviour = 0,
        av_behaviour_list = [],
        identity = 0,
        initial_carbon_emissions = 0,
        behavioural_carbon_emissions = [],
        individual_carbon_emissions_flow = 0,
        histories = None\<rparr>) (\<lambda>s.
     and_then (nd_sub (attitudes s) (thresholds s)) (\<lambda>v.
     and_then (calc_av_behaviour (s\<lparr>values_M := v\<rparr>)) (\<lambda>s.
     and_then (calc_identity
        (s\<lparr>av_behaviour_list := replicate (nat (cultural_inertia s)) (av_behaviour s)\<rparr>)) (\<lambda>i.
     and_then (calc_total_emissions_flow
        (s\<lparr>av_behaviour_list := replicate (nat (cultural_inertia s)) (av_behaviour s),
           identity := i\<rparr>)) (\<lambda>(total, es).
     (if save_timeseries_data s then init_histories else Inr)
        (s\<lparr>av_behaviour_list := replicate (nat (cultural_inertia s)) (av_behaviour s),
           identity := i,
           initial_carbon_emissions := total,
           behavioural_carbon_emissions := es,
           individual_carbon_emissions_flow := total\<rparr>)))))))"

subsection \<open>A sequence of steps\<close>

text \<open>The driver calls \<open>next_step\<close> once per tick. \<open>trajectory\<close> runs the agent over a
  list of step inputs \<open>(t, social_component, TA_component)\<close> and returns the state after
  each tick; the first error ends the run.\<close>

type_synonym step_input = "int \<times> nd \<times> (nd \<times> nd \<times> nd)"

fun trajectory :: "individual \<Rightarrow> rng \<Rightarrow> step_input list \<Rightarrow> error + individual list" where
  "trajectory s g [] = Inr []"
| "trajectory s g ((tn, social_component, TA_component) # inputs) =
     and_then (next_step tn social_component TA_component s g) (\<lambda>(s', g').
     and_then (trajectory s' g' inputs) (\<lambda>later.
     Inr (s' # later)))"

subsection \<open>Example agents\<close>

text \<open>The scenario of the specification: one behaviour, no social susceptibility, a memory
  of one step, every mode but \<^verbatim>\<open>"behavioural_independence"\<close>.\<close>

definition scenario_params :: individual_params where
  "scenario_params =
     \<lparr>param_M = 1, param_t = 0, param_save_timeseries_data = False,
      param_compression_factor = 1, param_phi_array = Vec [0],
      param_alpha_change = ''default''\<rparr>"

definition scenario_agent :: individual where
  "scenario_agent =
     \<lparr>attitudes = Vec [0.6], initial_first_attitude = 0.6,
      thresholds = Vec [0.2], normalized_discount_vector = [1],
      cultural_inertia = 1, pU = Scalar 0, pC = Scalar 0, pR = Scalar 0,
      thresholdspU = Scalar 0, thresholdspC = Scalar 0, thresholdspR = Scalar 0,
      M = 1, t = 0, save_timeseries_data = False, compression_factor = 1,
      phi_array = Vec [0], alpha_change = ''default'', id_n = 1,
      green_fountain_state = 0, attitudes_matrix = None, attitudes_star = None,
      values_M = Vec [0.4], av_behaviour = 0.16, av_behaviour_list = [0.16],
      identity = 0.16, initial_carbon_emissions = 0.3,
      behavioural_carbon_emissions = [0.3],
      individual_carbon_emissions_flow = 0.3, histories = None\<rparr>"

text \<open>The same agent with full social susceptibility and with the history switched on.\<close>

definition saving_params :: individual_params where
  "saving_params =
     \<lparr>param_M = 1, param_t = 0, param_save_timeseries_data = True,
      param_compression_factor = 1, param_phi_array = Vec [1],
      param_alpha_change = ''default''\<rparr>"

definition saving_agent :: individual where
  "saving_agent =
     \<lparr>attitudes = Vec [0.6], initial_first_attitude = 0.6,
      thresholds = Vec [0.2], normalized_discount_vector = [1],
      cultural_inertia = 1, pU = Scalar 0, pC = Scalar 0, pR = Scalar 0,
      thresholdspU = Scalar 0, thresholdspC = Scalar 0, thresholdspR = Scalar 0,
      M = 1, t = 0, save_timeseries_data = True, compression_factor = 1,
      phi_array = Vec [1], alpha_change = ''default'', id_n = 2,
      green_fountain_state = 0, attitudes_matrix = None, attitudes_star = None,
      values_M = Vec [0.4], av_behaviour = 0.16, av_behaviour_list = [0.16],
      identity = 0.16, initial_carbon_emissions = 0.3,
      behavioural_carbon_emissions = [0.3],
      individual_carbon_emissions_flow = 0.3,
      histories = Some
        \<lparr>history_behaviour_values = [[0.4]],
         history_behaviour_attitudes = [[0.6]],
         history_behaviour_thresholds = [[0.2]],
         history_TA = [Scalar 0],
         history_thresholdsTA = [Scalar 0],
         history_av_behaviour = [0.16],
         history_identity = [0.16],
         history_individual_carbon_emissions_flow = [0.3],
         history_behavioural_carbon_emissions = [[0.3]]\<rparr>\<rparr>"

text \<open>An agent with two behaviours and a memory of two steps in the mode
  \<^verbatim>\<open>"behavioural_independence"\<close>.\<close>

definition independent_params :: individual_params where
  "independent_params =
     \<lparr>param_M = 2, param_t = 0, param_save_timeseries_data = False,
      param_compression_factor = 1, param_phi_array = Vec [0.5, 0.5],
      param_alpha_change = ''behavioural_independence''\<rparr>"

definition independent_agent :: individual where
  "independent_agent =
     \<lparr>attitudes = Vec [0.2, 0.8], initial_first_attitude = 0.2,
      thresholds = Vec [0.5, 0.5], normalized_discount_vector = [0.75, 0.25],
      cultural_inertia = 2, pU = Vec [0, 0], pC = Vec [0, 0], pR = Vec [0, 0],
      thresholdspU = Vec [0, 0], thresholdspC = Vec [0, 0], thresholdspR = Vec [0, 0],
      M = 2, t = 0, save_timeseries_data = False, compression_factor = 1,
      phi_array = Vec [0.5, 0.5], alpha_change = ''behavioural_independence'', id_n = 3,
      green_fountain_state = 0,
      attitudes_matrix = Some (Matrix 2 [[0.2, 0.8], [0.2, 0.8]]),
      attitudes_star = Some (Vec [0.2, 0.8]),
      values_M = Vec [- 0.3, 0.3], av_behaviour = 0.34, av_behaviour_list = [0.34, 0.34],
      identity = 0.34, initial_carbon_emissions = 1,
      behavioural_carbon_emissions = [0.65, 0.35],
      individual_carbon_emissions_flow = 1, histories = None\<rparr>"

text \<open>An agent of the default mode with a memory of two steps and half social
  susceptibility, so that its attitude and its \<open>av_behaviour\<close> move with every step.\<close>

definition memory_params :: individual_params where
  "memory_params =
     \<lparr>param_M = 1, param_t = 0, param_save_timeseries_data = False,
      param_compression_factor = 1, param_phi_array = Vec [0.5],
      param_alpha_change = ''default''\<rparr>"

definition memory_agent :: individual where
  "memory_agent =
     \<lparr>attitudes = Vec [0.6], initial_first_attitude = 0.6,
      thresholds = Vec [0.2], normalized_discount_vector = [0.75, 0.25],
      cultural_inertia = 2, pU = Scalar 0, pC = Scalar 0, pR = Scalar 0,
      thresholdspU = Scalar 0, thresholdspC = Scalar 0, thresholdspR = Scalar 0,
      M = 1, t = 0, save_timeseries_data = False, compression_factor = 1,
      phi_array = Vec [0.5], alpha_change = ''default'', id_n = 4,
      green_fountain_state = 0, attitudes_matrix = None, attitudes_star = None,
      values_M = Vec [0.4], av_behaviour = 0.16, av_behaviour_list = [0.16, 0.16],
      identity = 0.16, initial_carbon_emissions = 0.3,
      behavioural_carbon_emissions = [0.3],
      individual_carbon_emissions_flow = 0.3, histories = None\<rparr>"

text \<open>The agent of the scenario, constructed with initial thresholds outside \<open>[0, 1]\<close>:
  \<open>thresholds = [3]\<close> and \<open>thresholdspU = 5\<close>. The constructor clips nothing.\<close>

definition unclipped_agent :: individual where
  "unclipped_agent =
     \<lparr>attitudes = Vec [0.6], initial_first_attitude = 0.6,
      thresholds = Vec [3], normalized_discount_vector = [1],
      cultural_inertia = 1, pU = Scalar 0, pC = Scalar 0, pR = Scalar 0,
      thresholdspU = Scalar 5, thresholdspC = Scalar 0, thresholdspR = Scalar 0,
      M = 1, t = 0, save_timeseries_data = False, compression_factor = 1,
      phi_array = Vec [0], alpha_change = ''default'', id_n = 5,
      green_fountain_state = 0, attitudes_matrix = None, attitudes_star = None,
      values_M = Vec [- 2.4], av_behaviour = 0.16, av_behaviour_list = [0.16],
      identity = 0.16, initial_carbon_emissions = 1.7,
      behavioural_carbon_emissions = [1.7],
      individual_carbon_emissions_flow = 1.7, histories = None\<rparr>"

text \<open>A generator whose draws are all 0, and one whose draws are all 2.\<close>

definition still :: rng where
  "still = (\<lambda>i. 0)"

definition wild :: rng where
  "wild = (\<lambda>i. 2)"

subsection \<open>Predicates of the properties\<close>

text \<open>Every element of an array lies in \<open>[0, 1]\<close>.\<close>

definition in_unit :: "nd \<Rightarrow> bool" where
  "in_unit a = list_all (\<lambda>x. 0 \<le> x \<and> x \<le> 1) (nd_elems a)"

section \<open>Properties\<close>

subsection \<open>Auxiliary facts\<close>

lemmas model_defs =
  Individual_init_def init_memory_def init_histories_def tile_rows_def
  next_step_def mode_update_def save_if_due_def save_timeseries_data_individual_def
  update_values_def update_attitudes_def update_pU_def update_pC_def update_pR_def
  social_learning_def update_thresholds_def update_thresholdTA_def normal_def
  calc_av_behaviour_def mean_sq_distance_def update_av_behaviour_list_def
  calc_identity_def update_attitudes_matrix_def calc_attitudes_star_def
  calc_total_emissions_flow_def TA_def thresholdsTA_def appraisal_def
  nd_add_def nd_sub_def nd_mul_def nd_clip_def clip01_def py_sum_def
  matmul_vec_def matmul_mat_def column_def

lemma and_then_Inl [simp]: "and_then (Inl e) f = Inl e"
  by (simp add: and_then_def)

lemma and_then_Inr [simp]: "and_then (Inr x) f = f x"
  by (simp add: and_then_def)

lemma and_then_eq_Inr: "and_then m f = Inr y \<longleftrightarrow> (\<exists>x. m = Inr x \<and> f x = Inr y)"
  by (cases m) simp_all

lemma scenario_agent_constructed:
  "Individual_init scenario_params (Vec [0.6]) (Vec [0.2]) [1] 1
     (Scalar 0) (Scalar 0) (Scalar 0) (Scalar 0) (Scalar 0) (Scalar 0) 1 = Inr scenario_agent"
  by (simp add: model_defs scenario_params_def scenario_agent_def power2_eq_square)

lemma saving_agent_constructed:
  "Individual_init saving_params (Vec [0.6]) (Vec [0.2]) [1] 1
     (Scalar 0) (Scalar 0) (Scalar 0) (Scalar 0) (Scalar 0) (Scalar 0) 2 = Inr saving_agent"
  by (simp add: model_defs saving_params_def saving_agent_def power2_eq_square)

lemma independent_agent_constructed:
  "Individual_init independent_params (Vec [0.2, 0.8]) (Vec [0.5, 0.5]) [0.75, 0.25] 2
     (Vec [0, 0]) (Vec [0, 0]) (Vec [0, 0]) (Vec [0, 0]) (Vec [0, 0]) (Vec [0, 0]) 3
   = Inr independent_agent"
  by (simp add: model_defs independent_params_def independent_agent_def power2_eq_square
      eval_nat_numeral)

lemma memory_agent_constructed:
  "Individual_init memory_params (Vec [0.6]) (Vec [0.2]) [0.75, 0.25] 2
     (Scalar 0) (Scalar 0) (Scalar 0) (Scalar 0) (Scalar 0) (Scalar 0) 4 = Inr memory_agent"
  by (simp add: model_defs memory_params_def memory_agent_def power2_eq_square
      eval_nat_numeral)

lemma unclipped_agent_constructed:
  "Individual_init scenario_params (Vec [0.6]) (Vec [3]) [1] 1
     (Scalar 0) (Scalar 0) (Scalar 0) (Scalar 5) (Scalar 0) (Scalar 0) 5 = Inr unclipped_agent"
  by (simp add: model_defs scenario_params_def unclipped_agent_def power2_eq_square)

lemma py_sum_sum_list: "py_sum xs = sum_list xs"
proof -
  have "foldl (+) a xs = a + sum_list xs" for a :: real
    by (induction xs arbitrary: a) simp_all
  from this [of 0] show ?thesis by (simp add: py_sum_def)
qed

text \<open>Each method changes only the attributes it assigns.\<close>

lemma update_values_shape: "update_values s = Inr s' \<Longrightarrow> \<exists>v. s' = s\<lparr>values_M := v\<rparr>"
  by (auto simp: update_values_def and_then_eq_Inr)

lemma update_attitudes_shape: "update_attitudes c s = Inr s' \<Longrightarrow> \<exists>a. s' = s\<lparr>attitudes := a\<rparr>"
  by (auto simp: update_attitudes_def and_then_eq_Inr)

lemma update_pU_shape: "update_pU c s = Inr s' \<Longrightarrow> \<exists>a. s' = s\<lparr>pU := a\<rparr>"
  by (auto simp: update_pU_def and_then_eq_Inr)

lemma update_pC_shape: "update_pC c s = Inr s' \<Longrightarrow> \<exists>a. s' = s\<lparr>pC := a\<rparr>"
  by (auto simp: update_pC_def and_then_eq_Inr)

lemma update_pR_shape: "update_pR c s = Inr s' \<Longrightarrow> \<exists>a. s' = s\<lparr>pR := a\<rparr>"
  by (auto simp: update_pR_def and_then_eq_Inr)

lemma save_shape: "save_timeseries_data_individual s = Inr s' \<Longrightarrow> \<exists>h. s' = s\<lparr>histories := h\<rparr>"
  by (auto simp: save_timeseries_data_individual_def and_then_eq_Inr split: option.splits)

lemma save_if_due_shape: "save_if_due s = Inr s' \<Longrightarrow> \<exists>h. s' = s\<lparr>histories := h\<rparr>"
proof -
  assume a: "save_if_due s = Inr s'"
  have "s = s\<lparr>histories := histories s\<rparr>" by simp
  with a show ?thesis
    unfolding save_if_due_def by (metis save_shape Inr_inject sum.distinct(1))
qed

lemma mode_update_independent_shape:
  "alpha_change s = ''behavioural_independence'' \<Longrightarrow> mode_update s g = Inr (s', g') \<Longrightarrow>
     g' = g \<and> (\<exists>A star. s' = s\<lparr>attitudes_matrix := Some A, attitudes_star := Some star\<rparr>)"
  by (auto simp: mode_update_def update_attitudes_matrix_def and_then_eq_Inr split: option.splits if_splits)

lemma update_thresholds_shape:
  "update_thresholds s g = Inr (s', g') \<Longrightarrow> \<exists>th. s' = s\<lparr>thresholds := th\<rparr>"
  by (auto simp: update_thresholds_def normal_def and_then_eq_Inr)

lemma update_thresholdTA_shape:
  "update_thresholdTA s g = Inr (s', g') \<Longrightarrow>
     \<exists>u c r. s' = s\<lparr>thresholdspU := u, thresholdspC := c, thresholdspR := r\<rparr>"
  by (auto simp: update_thresholdTA_def normal_def)

lemma mode_update_default_shape:
  assumes "alpha_change s \<noteq> ''behavioural_independence''" and "mode_update s g = Inr (s', g')"
  shows "\<exists>th u c r av i. mean_sq_distance (attitudes s) = Inr av \<and> av_behaviour_list s \<noteq> [] \<and>
           matmul_vec (normalized_discount_vector s) (av # butlast (av_behaviour_list s)) = Inr i \<and>
           s' = s\<lparr>thresholds := th, thresholdspU := u, thresholdspC := c, thresholdspR := r,
                  av_behaviour := av,
                  av_behaviour_list := av # butlast (av_behaviour_list s),
                  identity := i\<rparr>"
proof -
  from assms obtain s1 g1 s2 s3 s4 i where
    a: "update_thresholds s g = Inr (s1, g1)" and b: "update_thresholdTA s1 g1 = Inr (s2, g')"
    and c: "calc_av_behaviour s2 = Inr s3" and d: "update_av_behaviour_list s3 = Inr s4"
    and e: "calc_identity s4 = Inr i" and f: "s' = s4\<lparr>identity := i\<rparr>"
    by (auto simp: mode_update_def and_then_eq_Inr)
  from a obtain th where s1: "s1 = s\<lparr>thresholds := th\<rparr>"
    using update_thresholds_shape by blast
  from b obtain u c' r where s2: "s2 = s1\<lparr>thresholdspU := u, thresholdspC := c', thresholdspR := r\<rparr>"
    using update_thresholdTA_shape by blast
  from c obtain av where av: "mean_sq_distance (attitudes s2) = Inr av" and s3: "s3 = s2\<lparr>av_behaviour := av\<rparr>"
    by (auto simp: calc_av_behaviour_def and_then_eq_Inr)
  from d have ne: "av_behaviour_list s3 \<noteq> []"
    and s4: "s4 = s3\<lparr>av_behaviour_list := av_behaviour s3 # butlast (av_behaviour_list s3)\<rparr>"
    by (auto simp: update_av_behaviour_list_def split: if_splits)
  show ?thesis
    using av ne e f s1 s2 s3 s4 by (auto simp: calc_identity_def)
qed

lemma next_step_stages:
  assumes "next_step tn sc (cu, cc, cr) s g = Inr (s', g')"
  shows "\<exists>s1 s2 s3 s4 s5 s6 total es.
           update_values (s\<lparr>t := tn\<rparr>) = Inr s1 \<and> update_attitudes sc s1 = Inr s2 \<and>
           update_pU cu s2 = Inr s3 \<and> update_pC cc s3 = Inr s4 \<and> update_pR cr s4 = Inr s5 \<and>
           mode_update s5 g = Inr (s6, g') \<and> calc_total_emissions_flow s6 = Inr (total, es) \<and>
           save_if_due (s6\<lparr>individual_carbon_emissions_flow := total,
                           behavioural_carbon_emissions := es\<rparr>) = Inr s'"
  using assms by (auto simp: next_step_def and_then_eq_Inr)

text \<open>The state on which the mode branch runs.\<close>
lemma next_step_before_mode:
  assumes "next_step tn sc ta s g = Inr (s', g')"
  shows "\<exists>v a u c r s6 total es h.
           update_attitudes sc (s\<lparr>t := tn, values_M := v\<rparr>) = Inr (s\<lparr>t := tn, values_M := v, attitudes := a\<rparr>) \<and>
           mode_update (s\<lparr>t := tn, values_M := v, attitudes := a, pU := u, pC := c, pR := r\<rparr>) g
             = Inr (s6, g') \<and>
           calc_total_emissions_flow s6 = Inr (total, es) \<and>
           s' = s6\<lparr>individual_carbon_emissions_flow := total,
                   behavioural_carbon_emissions := es, histories := h\<rparr>"
proof -
  obtain cu cc cr where ta: "ta = (cu, cc, cr)" by (cases ta) auto
  from next_step_stages [OF assms [unfolded ta]] obtain s1 s2 s3 s4 s5 s6 total es where
    1: "update_values (s\<lparr>t := tn\<rparr>) = Inr s1" and 2: "update_attitudes sc s1 = Inr s2" and
    3: "update_pU cu s2 = Inr s3" and 4: "update_pC cc s3 = Inr s4" and 5: "update_pR cr s4 = Inr s5" and
    6: "mode_update s5 g = Inr (s6, g')" and 7: "calc_total_emissions_flow s6 = Inr (total, es)" and
    8: "save_if_due (s6\<lparr>individual_carbon_emissions_flow := total,
                           behavioural_carbon_emissions := es\<rparr>) = Inr s'"
    by blast
  from 1 obtain v where s1: "s1 = s\<lparr>t := tn, values_M := v\<rparr>" using update_values_shape by blast
  from 2 obtain a where s2: "s2 = s1\<lparr>attitudes := a\<rparr>" using update_attitudes_shape by blast
  from 3 obtain u where s3: "s3 = s2\<lparr>pU := u\<rparr>" using update_pU_shape by blast
  from 4 obtain c where s4: "s4 = s3\<lparr>pC := c\<rparr>" using update_pC_shape by blast
  from 5 obtain r where s5: "s5 = s4\<lparr>pR := r\<rparr>" using update_pR_shape by blast
  from 8 obtain h where s': "s' = s6\<lparr>individual_carbon_emissions_flow := total,
                           behavioural_carbon_emissions := es, histories := h\<rparr>"
    using save_if_due_shape by blast
  show ?thesis
    using 2 6 7 s' unfolding s1 s2 s3 s4 s5 by blast
qed

subsection \<open>What the mode "behavioural independence" leaves alone\<close>

text \<open>Claim C5. In the mode \<^verbatim>\<open>"behavioural_independence"\<close> a step that returns leaves
  \<open>thresholds\<close>, \<open>thresholdspU\<close>, \<open>thresholdspC\<close>, \<open>thresholdspR\<close>, \<open>av_behaviour\<close>,
  \<open>av_behaviour_list\<close> and \<open>identity\<close> as they were, and draws nothing from the
  generator.\<close>

theorem independent_mode_frame:
  assumes mode: "alpha_change s = ''behavioural_independence''"
    and step: "next_step tn sc ta s g = Inr (s', g')"
  shows "thresholds s' = thresholds s \<and> thresholdspU s' = thresholdspU s \<and>
         thresholdspC s' = thresholdspC s \<and> thresholdspR s' = thresholdspR s \<and>
         av_behaviour s' = av_behaviour s \<and> av_behaviour_list s' = av_behaviour_list s \<and>
         identity s' = identity s \<and> g' = g"
proof -
  from next_step_before_mode [OF step] obtain v a u c r s6 total es h where
    m: "mode_update (s\<lparr>t := tn, values_M := v, attitudes := a, pU := u, pC := c, pR := r\<rparr>) g
             = Inr (s6, g')"
    and s': "s' = s6\<lparr>individual_carbon_emissions_flow := total,
                   behavioural_carbon_emissions := es, histories := h\<rparr>"
    by blast
  let ?s5 = "s\<lparr>t := tn, values_M := v, attitudes := a, pU := u, pC := c, pR := r\<rparr>"
  have "alpha_change ?s5 = ''behavioural_independence''" using mode by simp
  from mode_update_independent_shape [OF this m] obtain A star where
    "g' = g" and "s6 = ?s5\<lparr>attitudes_matrix := Some A, attitudes_star := Some star\<rparr>"
    by blast
  with s' show ?thesis by simp
qed

theorem independent_mode_frame_witness:
  "\<exists>s' g'. alpha_change independent_agent = ''behavioural_independence'' \<and>
     next_step 1 (Vec [1, 0]) (Vec [0, 0], Vec [0, 0], Vec [0, 0]) independent_agent wild
       = Inr (s', g') \<and>
     thresholds s' = thresholds independent_agent \<and>
     thresholdspU s' = thresholdspU independent_agent \<and>
     thresholdspC s' = thresholdspC independent_agent \<and>
     thresholdspR s' = thresholdspR independent_agent \<and>
     av_behaviour s' = av_behaviour independent_agent \<and>
     av_behaviour_list s' = av_behaviour_list independent_agent \<and>
     identity s' = identity independent_agent \<and> g' = wild"
proof -
  have "\<exists>s' g'. next_step 1 (Vec [1, 0]) (Vec [0, 0], Vec [0, 0], Vec [0, 0])
          independent_agent wild = Inr (s', g')"
    by (simp add: model_defs independent_agent_def wild_def eval_nat_numeral)
  then obtain s' g' where
    step: "next_step 1 (Vec [1, 0]) (Vec [0, 0], Vec [0, 0], Vec [0, 0])
             independent_agent wild = Inr (s', g')"
    by blast
  have mode: "alpha_change independent_agent = ''behavioural_independence''"
    by (simp add: independent_agent_def)
  from independent_mode_frame [OF mode step] mode step show ?thesis by blast
qed

subsection \<open>Emissions\<close>

lemma behavioural_emissions_entries:
  "behavioural_emissions v is = Inr es \<Longrightarrow>
     length es = length is \<and>
     (\<forall>k<length is. \<exists>x. nd_index v (is ! k) = Inr x \<and> es ! k = (1 - x) / 2)"
proof (induction "is" arbitrary: es)
  case Nil
  then show ?case by simp
next
  case (Cons i "is")
  from Cons.prems obtain x rest where
    x: "nd_index v i = Inr x" and rest: "behavioural_emissions v is = Inr rest"
    and es: "es = (1 - x) / 2 # rest"
    by (auto simp: and_then_eq_Inr)
  from Cons.IH [OF rest] x es show ?case
    by (auto simp: nth_Cons split: nat.splits)
qed

text \<open>Claim C6. After a step that returns, in either mode, there is one emission per
  behaviour index \<open>i < M\<close>, it is \<open>(1 - values[i]) / 2\<close> for the values of the new state,
  and the total is the sum of these emissions.\<close>

theorem emissions_follow_values:
  assumes step: "next_step tn sc ta s g = Inr (s', g')"
  shows "M s' = M s \<and>
         length (behavioural_carbon_emissions s') = nat (M s') \<and>
         (\<forall>i<nat (M s'). \<exists>x. nd_index (values_M s') i = Inr x \<and>
              behavioural_carbon_emissions s' ! i = (1 - x) / 2) \<and>
         individual_carbon_emissions_flow s' = py_sum (behavioural_carbon_emissions s') \<and>
         individual_carbon_emissions_flow s' = sum_list (behavioural_carbon_emissions s')"
proof -
  from next_step_before_mode [OF step] obtain v a u c r s6 total es h where
    m: "mode_update (s\<lparr>t := tn, values_M := v, attitudes := a, pU := u, pC := c, pR := r\<rparr>) g
             = Inr (s6, g')"
    and e: "calc_total_emissions_flow s6 = Inr (total, es)"
    and s': "s' = s6\<lparr>individual_carbon_emissions_flow := total,
                   behavioural_carbon_emissions := es, histories := h\<rparr>"
    by blast
  let ?s5 = "s\<lparr>t := tn, values_M := v, attitudes := a, pU := u, pC := c, pR := r\<rparr>"
  have M6: "M s6 = M s"
  proof (cases "alpha_change ?s5 = ''behavioural_independence''")
    case True
    from mode_update_independent_shape [OF True m] show ?thesis by auto
  next
    case False
    from mode_update_default_shape [OF False m] show ?thesis by auto
  qed
  from e have es: "behavioural_emissions (values_M s6) [0..<nat (M s6)] = Inr es"
    and total: "total = py_sum es"
    by (auto simp: calc_total_emissions_flow_def and_then_eq_Inr)
  from behavioural_emissions_entries [OF es] have
    "length es = nat (M s6)" and
    "\<forall>k<nat (M s6). \<exists>x. nd_index (values_M s6) k = Inr x \<and> es ! k = (1 - x) / 2"
    by auto
  with M6 total s' show ?thesis by (simp add: py_sum_sum_list)
qed

theorem emissions_follow_values_witness:
  "\<exists>s' g'.
     next_step 1 (Vec [1, 0]) (Vec [0, 0], Vec [0, 0], Vec [0, 0]) independent_agent still
       = Inr (s', g') \<and>
     M s' = M independent_agent \<and> nat (M s') = 2 \<and>
     length (behavioural_carbon_emissions s') = nat (M s') \<and>
     (\<exists>x. nd_index (values_M s') 0 = Inr x \<and>
          behavioural_carbon_emissions s' ! 0 = (1 - x) / 2) \<and>
     (\<exists>x. nd_index (values_M s') 1 = Inr x \<and>
          behavioural_carbon_emissions s' ! 1 = (1 - x) / 2) \<and>
     individual_carbon_emissions_flow s' = py_sum (behavioural_carbon_emissions s') \<and>
     individual_carbon_emissions_flow s' = sum_list (behavioural_carbon_emissions s')"
proof -
  have "\<exists>s' g'. next_step 1 (Vec [1, 0]) (Vec [0, 0], Vec [0, 0], Vec [0, 0])
          independent_agent still = Inr (s', g')"
    by (simp add: model_defs independent_agent_def still_def eval_nat_numeral)
  then obtain s' g' where
    step: "next_step 1 (Vec [1, 0]) (Vec [0, 0], Vec [0, 0], Vec [0, 0])
             independent_agent still = Inr (s', g')"
    by blast
  have two: "nat (M independent_agent) = 2"
    by (simp add: independent_agent_def)
  note e = emissions_follow_values [OF step]
  from e two have all: "\<forall>i<2. \<exists>x. nd_index (values_M s') i = Inr x \<and>
          behavioural_carbon_emissions s' ! i = (1 - x) / 2"
    by simp
  from all have "\<exists>x. nd_index (values_M s') 0 = Inr x \<and>
          behavioural_carbon_emissions s' ! 0 = (1 - x) / 2"
    by (rule allE [of _ 0]) simp
  moreover from all have "\<exists>x. nd_index (values_M s') 1 = Inr x \<and>
          behavioural_carbon_emissions s' ! 1 = (1 - x) / 2"
    by (rule allE [of _ 1]) simp
  ultimately show ?thesis using e two step by (intro exI [of _ s'] exI [of _ g']) simp
qed

subsection \<open>The thresholds stay in the unit interval\<close>

lemma in_unit_clip: "in_unit (nd_clip a)"
  by (cases a) (auto simp: in_unit_def nd_clip_def clip01_def list_all_iff)

lemma update_thresholds_clips:
  "update_thresholds s g = Inr (s', g') \<Longrightarrow> in_unit (thresholds s')"
  by (auto simp: update_thresholds_def normal_def and_then_eq_Inr in_unit_clip)

lemma update_thresholdTA_clips:
  "\<exists>u c r. update_thresholdTA s g =
      Inr (s\<lparr>thresholdspU := u, thresholdspC := c, thresholdspR := r\<rparr>, \<lambda>i. g (i + 3)) \<and>
      in_unit u \<and> in_unit c \<and> in_unit r"
proof -
  let ?u = "nd_clip (nd_map (\<lambda>x. x + g 0) (thresholdspU s))"
  let ?c = "nd_clip (nd_map (\<lambda>x. x + g 1) (thresholdspC s))"
  let ?r = "nd_clip (nd_map (\<lambda>x. x + g 2) (thresholdspR s))"
  have "update_thresholdTA s g =
      Inr (s\<lparr>thresholdspU := ?u, thresholdspC := ?c, thresholdspR := ?r\<rparr>, \<lambda>i. g (i + 3))"
    by (simp add: update_thresholdTA_def normal_def eval_nat_numeral)
  moreover have "in_unit ?u" and "in_unit ?c" and "in_unit ?r"
    by (rule in_unit_clip)+
  ultimately show ?thesis by blast
qed

lemma mode_update_default_clips:
  assumes "alpha_change s \<noteq> ''behavioural_independence''" and "mode_update s g = Inr (s', g')"
  shows "in_unit (thresholds s') \<and> in_unit (thresholdspU s') \<and>
         in_unit (thresholdspC s') \<and> in_unit (thresholdspR s')"
proof -
  from assms obtain s1 g1 s2 s3 s4 i where
    a: "update_thresholds s g = Inr (s1, g1)" and b: "update_thresholdTA s1 g1 = Inr (s2, g')"
    and c: "calc_av_behaviour s2 = Inr s3" and d: "update_av_behaviour_list s3 = Inr s4"
    and f: "s' = s4\<lparr>identity := i\<rparr>"
    by (auto simp: mode_update_def and_then_eq_Inr)
  from update_thresholdTA_clips [of s1 g1] b obtain u c' r where
    s2: "s2 = s1\<lparr>thresholdspU := u, thresholdspC := c', thresholdspR := r\<rparr>"
    and u: "in_unit u" "in_unit c'" "in_unit r"
    by auto
  from c obtain av where s3: "s3 = s2\<lparr>av_behaviour := av\<rparr>"
    by (auto simp: calc_av_behaviour_def and_then_eq_Inr)
  from d obtain l where s4: "s4 = s3\<lparr>av_behaviour_list := l\<rparr>"
    by (auto simp: update_av_behaviour_list_def split: if_splits)
  from update_thresholds_clips [OF a] u show ?thesis
    by (simp add: f s4 s3 s2)
qed

text \<open>Claim C4, amended. Each of the two methods clips the arrays it assigns and no
  other. Whatever the state and whatever the generator draws: \<open>update_thresholds\<close>, when
  it returns, leaves every element of \<open>thresholds\<close> in \<open>[0, 1]\<close>;
  \<open>update_thresholdTA\<close> always returns and leaves every element of \<open>thresholdspU\<close>,
  \<open>thresholdspC\<close> and \<open>thresholdspR\<close> in \<open>[0, 1]\<close>; after the two in a row, and after
  every step of the default mode (which runs them), all four are in \<open>[0, 1]\<close>.\<close>

theorem threshold_updates_clip:
  "(\<forall>s' g'. update_thresholds s g = Inr (s', g') \<longrightarrow> in_unit (thresholds s')) \<and>
   (\<exists>s' g'. update_thresholdTA s g = Inr (s', g') \<and>
      in_unit (thresholdspU s') \<and> in_unit (thresholdspC s') \<and> in_unit (thresholdspR s')) \<and>
   (\<forall>s1 g1 s2 g2. update_thresholds s g = Inr (s1, g1) \<and>
       update_thresholdTA s1 g1 = Inr (s2, g2) \<longrightarrow>
      in_unit (thresholds s2) \<and> in_unit (thresholdspU s2) \<and>
      in_unit (thresholdspC s2) \<and> in_unit (thresholdspR s2)) \<and>
   (\<forall>tn sc ta s' g'. alpha_change s \<noteq> ''behavioural_independence'' \<and>
       next_step tn sc ta s g = Inr (s', g') \<longrightarrow>
      in_unit (thresholds s') \<and> in_unit (thresholdspU s') \<and>
      in_unit (thresholdspC s') \<and> in_unit (thresholdspR s'))"
proof (intro conjI allI impI)
  fix s' g' assume "update_thresholds s g = Inr (s', g')"
  then show "in_unit (thresholds s')" by (rule update_thresholds_clips)
next
  from update_thresholdTA_clips [of s g]
  show "\<exists>s' g'. update_thresholdTA s g = Inr (s', g') \<and>
      in_unit (thresholdspU s') \<and> in_unit (thresholdspC s') \<and> in_unit (thresholdspR s')"
    by auto
next
  fix s1 g1 s2 g2
  assume a: "update_thresholds s g = Inr (s1, g1) \<and> update_thresholdTA s1 g1 = Inr (s2, g2)"
  from update_thresholdTA_clips [of s1 g1] a update_thresholds_clips [of s g s1 g1]
  have "in_unit (thresholds s2) \<and> in_unit (thresholdspU s2) \<and>
      in_unit (thresholdspC s2) \<and> in_unit (thresholdspR s2)"
    by auto
  then show "in_unit (thresholds s2)" "in_unit (thresholdspU s2)"
    "in_unit (thresholdspC s2)" "in_unit (thresholdspR s2)" by simp_all
next
  fix tn sc ta s' g'
  assume a: "alpha_change s \<noteq> ''behavioural_independence'' \<and>
       next_step tn sc ta s g = Inr (s', g')"
  from a next_step_before_mode [of tn sc ta s g s' g'] obtain v a' u c r s6 total es h where
    m: "mode_update (s\<lparr>t := tn, values_M := v, attitudes := a', pU := u, pC := c, pR := r\<rparr>) g
             = Inr (s6, g')"
    and s': "s' = s6\<lparr>individual_carbon_emissions_flow := total,
                   behavioural_carbon_emissions := es, histories := h\<rparr>"
    by blast
  let ?s5 = "s\<lparr>t := tn, values_M := v, attitudes := a', pU := u, pC := c, pR := r\<rparr>"
  have "alpha_change ?s5 \<noteq> ''behavioural_independence''" using a by simp
  from mode_update_default_clips [OF this m] s'
  have "in_unit (thresholds s') \<and> in_unit (thresholdspU s') \<and>
      in_unit (thresholdspC s') \<and> in_unit (thresholdspR s')"
    by simp
  then show "in_unit (thresholds s')" "in_unit (thresholdspU s')"
    "in_unit (thresholdspC s')" "in_unit (thresholdspR s')" by simp_all
qed


theorem threshold_updates_clip_witness:
  "\<exists>s1 g1 s2 g2 s' g'.
     update_thresholds scenario_agent wild = Inr (s1, g1) \<and>
     thresholds s1 = Vec [1] \<and> in_unit (thresholds s1) \<and>
     update_thresholdTA s1 g1 = Inr (s2, g2) \<and>
     in_unit (thresholds s2) \<and> in_unit (thresholdspU s2) \<and>
     in_unit (thresholdspC s2) \<and> in_unit (thresholdspR s2) \<and>
     alpha_change scenario_agent \<noteq> ''behavioural_independence'' \<and>
     next_step 1 (Vec [0]) (Vec [0], Vec [0], Vec [0]) scenario_agent wild = Inr (s', g') \<and>
     in_unit (thresholds s') \<and> in_unit (thresholdspU s') \<and>
     in_unit (thresholdspC s') \<and> in_unit (thresholdspR s')"
proof -
  have "\<exists>s1 g1. update_thresholds scenario_agent wild = Inr (s1, g1) \<and> thresholds s1 = Vec [1]"
    by (simp add: model_defs scenario_agent_def wild_def)
  then obtain s1 g1 where
    a: "update_thresholds scenario_agent wild = Inr (s1, g1)" and v: "thresholds s1 = Vec [1]"
    by blast
  have "\<exists>s2 g2. update_thresholdTA s1 g1 = Inr (s2, g2)"
    by (simp add: update_thresholdTA_def normal_def)
  then obtain s2 g2 where b: "update_thresholdTA s1 g1 = Inr (s2, g2)"
    by blast
  have "\<exists>s' g'. next_step 1 (Vec [0]) (Vec [0], Vec [0], Vec [0]) scenario_agent wild
          = Inr (s', g')"
    by (simp add: model_defs scenario_agent_def wild_def)
  then obtain s' g' where
    step: "next_step 1 (Vec [0]) (Vec [0], Vec [0], Vec [0]) scenario_agent wild = Inr (s', g')"
    by blast
  have mode: "alpha_change scenario_agent \<noteq> ''behavioural_independence''"
    by (simp add: scenario_agent_def)
  from threshold_updates_clip [of scenario_agent wild] a b v mode step
  show ?thesis by blast
qed

text \<open>Claim C4 as stated fails. The constructor accepts \<open>thresholds = [3]\<close> and
  \<open>thresholdspU = 5\<close>. After \<open>update_thresholds\<close> alone \<open>thresholdspU\<close> is still 5,
  and after \<open>update_thresholdTA\<close> alone \<open>thresholds\<close> is still \<open>[3]\<close>: one call of
  either method does not bring all four arrays into \<open>[0, 1]\<close>.\<close>

theorem single_update_leaves_the_other_arrays:
  "Individual_init scenario_params (Vec [0.6]) (Vec [3]) [1] 1
     (Scalar 0) (Scalar 0) (Scalar 0) (Scalar 5) (Scalar 0) (Scalar 0) 5 = Inr unclipped_agent \<and>
   \<not> isl (update_thresholds unclipped_agent still) \<and>
   thresholdspU (fst (projr (update_thresholds unclipped_agent still))) = Scalar 5 \<and>
   \<not> in_unit (thresholdspU (fst (projr (update_thresholds unclipped_agent still)))) \<and>
   \<not> isl (update_thresholdTA unclipped_agent still) \<and>
   thresholds (fst (projr (update_thresholdTA unclipped_agent still))) = Vec [3] \<and>
   \<not> in_unit (thresholds (fst (projr (update_thresholdTA unclipped_agent still))))"
  using unclipped_agent_constructed
  by (simp add: unclipped_agent_def still_def update_thresholds_def update_thresholdTA_def
      normal_def nd_add_def nd_clip_def clip01_def in_unit_def)

subsection \<open>Full social susceptibility\<close>


lemma full_replacement:
  fixes ps as cs :: "real list"
  assumes "length ps = length as" and "length as = length cs" and "\<forall>p\<in>set ps. p = 1"
  shows "map2 (+) (map2 (*) (map (\<lambda>p. 1 - p) ps) as) (map2 (*) ps cs) = cs"
  using assms by (induction ps as cs rule: list_induct3) simp_all

lemma social_learning_full:
  assumes "length as = length ps" and "length cs = length ps" and "\<forall>p\<in>set ps. p = 1"
  shows "social_learning (Vec ps) (Vec as) (Vec cs) = Inr (Vec cs)"
  using assms full_replacement [of ps as cs]
  by (simp add: social_learning_def nd_mul_def nd_add_def)

text \<open>Claim C8. When every entry of \<open>phi_array\<close> is 1 and \<open>phi_array\<close>, \<open>attitudes\<close>
  and \<open>social_component\<close> are arrays of one length, \<open>update_attitudes\<close> returns with
  the attitudes equal to \<open>social_component\<close>, whatever they were before, and so does
  every step that returns.\<close>

theorem full_susceptibility_replaces_attitudes:
  assumes phi: "phi_array s = Vec ps" and ones: "\<forall>p\<in>set ps. p = 1"
    and att: "attitudes s = Vec as" and la: "length as = length ps"
    and lc: "length cs = length ps"
  shows "update_attitudes (Vec cs) s = Inr (s\<lparr>attitudes := Vec cs\<rparr>) \<and>
         (\<forall>tn ta g s' g'. next_step tn (Vec cs) ta s g = Inr (s', g') \<longrightarrow>
            attitudes s' = Vec cs)"
proof (intro conjI allI impI)
  show "update_attitudes (Vec cs) s = Inr (s\<lparr>attitudes := Vec cs\<rparr>)"
    by (simp add: update_attitudes_def phi att social_learning_full [OF la lc ones])
next
  fix tn ta g s' g'
  assume step: "next_step tn (Vec cs) ta s g = Inr (s', g')"
  from next_step_before_mode [OF step] obtain v a u c r s6 total es h where
    ua: "update_attitudes (Vec cs) (s\<lparr>t := tn, values_M := v\<rparr>)
           = Inr (s\<lparr>t := tn, values_M := v, attitudes := a\<rparr>)"
    and m: "mode_update (s\<lparr>t := tn, values_M := v, attitudes := a, pU := u, pC := c, pR := r\<rparr>) g
             = Inr (s6, g')"
    and s': "s' = s6\<lparr>individual_carbon_emissions_flow := total,
                   behavioural_carbon_emissions := es, histories := h\<rparr>"
    by blast
  let ?s5 = "s\<lparr>t := tn, values_M := v, attitudes := a, pU := u, pC := c, pR := r\<rparr>"
  from ua have "s\<lparr>t := tn, values_M := v, attitudes := Vec cs\<rparr>
      = s\<lparr>t := tn, values_M := v, attitudes := a\<rparr>"
    by (simp add: update_attitudes_def phi att social_learning_full [OF la lc ones])
  from arg_cong [OF this, of attitudes] have a: "a = Vec cs" by simp
  have "attitudes s6 = a"
  proof (cases "alpha_change ?s5 = ''behavioural_independence''")
    case True
    from mode_update_independent_shape [OF True m] show ?thesis by auto
  next
    case False
    from mode_update_default_shape [OF False m] show ?thesis by auto
  qed
  with a s' show "attitudes s' = Vec cs" by simp
qed

theorem full_susceptibility_replaces_attitudes_witness:
  "phi_array saving_agent = Vec [1] \<and> list_all (\<lambda>p. p = 1) [1::real] \<and>
   attitudes saving_agent = Vec [0.6] \<and>
   length [0.6::real] = length [1::real] \<and> length [0.9::real] = length [1::real] \<and>
   update_attitudes (Vec [0.9]) saving_agent = Inr (saving_agent\<lparr>attitudes := Vec [0.9]\<rparr>) \<and>
   (\<exists>s' g'. next_step 1 (Vec [0.9]) (Vec [0], Vec [0], Vec [0]) saving_agent wild
        = Inr (s', g') \<and> attitudes s' = Vec [0.9])"
proof -
  have phi: "phi_array saving_agent = Vec [1]" and att: "attitudes saving_agent = Vec [0.6]"
    by (simp_all add: saving_agent_def)
  have ones: "\<forall>p\<in>set [1::real]. p = 1" by simp
  have la: "length [0.6::real] = length [1::real]"
    and lc: "length [0.9::real] = length [1::real]" by simp_all
  have "\<exists>s' g'. next_step 1 (Vec [0.9]) (Vec [0], Vec [0], Vec [0]) saving_agent wild
          = Inr (s', g')"
    by (simp add: model_defs saving_agent_def wild_def)
  then obtain s' g' where
    step: "next_step 1 (Vec [0.9]) (Vec [0], Vec [0], Vec [0]) saving_agent wild = Inr (s', g')"
    by blast
  have "list_all (\<lambda>p. p = 1) [1::real]" by simp
  with full_susceptibility_replaces_attitudes [OF phi ones att la lc] step phi att la lc
  show ?thesis by blast
qed

subsection \<open>The window of average behaviours\<close>

lemma init_histories_keeps:
  "init_histories s = Inr s' \<Longrightarrow>
     cultural_inertia s' = cultural_inertia s \<and> alpha_change s' = alpha_change s \<and>
     av_behaviour_list s' = av_behaviour_list s \<and> av_behaviour s' = av_behaviour s"
  by (auto simp: init_histories_def and_then_eq_Inr)

lemma init_memory_keeps:
  "init_memory s = Inr s' \<Longrightarrow>
     cultural_inertia s' = cultural_inertia s \<and> alpha_change s' = alpha_change s"
  by (auto simp: init_memory_def and_then_eq_Inr split: if_splits)

lemma Individual_init_window:
  assumes "Individual_init params a th w inertia u c r tu tc tr n = Inr s0"
  shows "cultural_inertia s0 = inertia \<and> alpha_change s0 = param_alpha_change params \<and>
         av_behaviour_list s0 = replicate (nat inertia) (av_behaviour s0)"
proof -
  from assms obtain s1 s2 v s3 i total es where
    m: "init_memory s1 = Inr s2" and s1: "cultural_inertia s1 = inertia"
      "alpha_change s1 = param_alpha_change params"
    and av: "calc_av_behaviour (s2\<lparr>values_M := v\<rparr>) = Inr s3"
    and fin: "(if save_timeseries_data s3 then init_histories else Inr)
        (s3\<lparr>av_behaviour_list := replicate (nat (cultural_inertia s3)) (av_behaviour s3),
           identity := i,
           initial_carbon_emissions := total,
           behavioural_carbon_emissions := es,
           individual_carbon_emissions_flow := total\<rparr>) = Inr s0"
    unfolding Individual_init_def and_then_eq_Inr by (auto simp del: replicate.simps)
  from init_memory_keeps [OF m] s1 have s2: "cultural_inertia s2 = inertia"
    "alpha_change s2 = param_alpha_change params" by simp_all
  from av s2 have s3: "cultural_inertia s3 = inertia"
    "alpha_change s3 = param_alpha_change params"
    by (auto simp: calc_av_behaviour_def and_then_eq_Inr)
  let ?s4 = "s3\<lparr>av_behaviour_list := replicate (nat (cultural_inertia s3)) (av_behaviour s3),
           identity := i,
           initial_carbon_emissions := total,
           behavioural_carbon_emissions := es,
           individual_carbon_emissions_flow := total\<rparr>"
  have "cultural_inertia s0 = cultural_inertia ?s4 \<and> alpha_change s0 = alpha_change ?s4 \<and>
     av_behaviour_list s0 = av_behaviour_list ?s4 \<and> av_behaviour s0 = av_behaviour ?s4"
  proof (cases "save_timeseries_data s3")
    case True
    with fin have "init_histories ?s4 = Inr s0" by simp
    then show ?thesis by (rule init_histories_keeps)
  next
    case False
    with fin show ?thesis by simp
  qed
  with s3 show ?thesis by simp
qed

lemma next_step_window:
  assumes step: "next_step tn sc ta s g = Inr (s', g')"
  shows "cultural_inertia s' = cultural_inertia s \<and> alpha_change s' = alpha_change s \<and>
         length (av_behaviour_list s') = length (av_behaviour_list s) \<and>
         (alpha_change s \<noteq> ''behavioural_independence'' \<longrightarrow>
            av_behaviour_list s \<noteq> [] \<and>
            av_behaviour_list s' = av_behaviour s' # butlast (av_behaviour_list s))"
proof -
  from next_step_before_mode [OF step] obtain v a u c r s6 total es h where
    m: "mode_update (s\<lparr>t := tn, values_M := v, attitudes := a, pU := u, pC := c, pR := r\<rparr>) g
             = Inr (s6, g')"
    and s': "s' = s6\<lparr>individual_carbon_emissions_flow := total,
                   behavioural_carbon_emissions := es, histories := h\<rparr>"
    by blast
  let ?s5 = "s\<lparr>t := tn, values_M := v, attitudes := a, pU := u, pC := c, pR := r\<rparr>"
  show ?thesis
  proof (cases "alpha_change s = ''behavioural_independence''")
    case True
    then have "alpha_change ?s5 = ''behavioural_independence''" by simp
    from mode_update_independent_shape [OF this m] s' True show ?thesis by auto
  next
    case False
    then have "alpha_change ?s5 \<noteq> ''behavioural_independence''" by simp
    from mode_update_default_shape [OF this m] obtain th u' c' r' av i where
      ne: "av_behaviour_list ?s5 \<noteq> []"
      and s6: "s6 = ?s5\<lparr>thresholds := th, thresholdspU := u', thresholdspC := c',
                  thresholdspR := r', av_behaviour := av,
                  av_behaviour_list := av # butlast (av_behaviour_list ?s5),
                  identity := i\<rparr>"
      by blast
    from ne have "av_behaviour_list s \<noteq> []" by simp
    then show ?thesis by (simp add: s' s6)
  qed
qed

lemma take_push:
  fixes l :: "'a list"
  assumes "length l = n"
  shows "take n (xs @ a # butlast l) = take n (xs @ a # l)"
proof (cases "n - length xs")
  case 0
  then show ?thesis by simp
next
  case (Suc k)
  then have "k < length l" using assms by simp
  then have "take k (butlast l) = take k l" by (rule take_butlast)
  with Suc show ?thesis by simp
qed

lemma trajectory_window:
  assumes "trajectory s g inputs = Inr states"
  shows "(\<forall>x\<in>set states. cultural_inertia x = cultural_inertia s \<and>
            length (av_behaviour_list x) = length (av_behaviour_list s)) \<and>
         (alpha_change s \<noteq> ''behavioural_independence'' \<longrightarrow>
            av_behaviour_list (last (s # states)) =
              take (length (av_behaviour_list s))
                (rev (map av_behaviour states) @ av_behaviour_list s))"
  using assms
proof (induction inputs arbitrary: s g states)
  case Nil
  then show ?case by simp
next
  case (Cons inp inputs)
  obtain tn sc ta where inp: "inp = (tn, sc, ta)" by (cases inp) auto
  from Cons.prems obtain s1 g1 later where
    step: "next_step tn sc ta s g = Inr (s1, g1)"
    and rest: "trajectory s1 g1 inputs = Inr later"
    and states: "states = s1 # later"
    by (auto simp: inp and_then_eq_Inr)
  note w = next_step_window [OF step]
  note ih = Cons.IH [OF rest]
  have inv: "\<forall>x\<in>set states. cultural_inertia x = cultural_inertia s \<and>
            length (av_behaviour_list x) = length (av_behaviour_list s)"
    using w ih states by auto
  have win: "av_behaviour_list (last (s # states)) =
              take (length (av_behaviour_list s))
                (rev (map av_behaviour states) @ av_behaviour_list s)"
    if mode: "alpha_change s \<noteq> ''behavioural_independence''"
  proof -
    from w mode have mode1: "alpha_change s1 \<noteq> ''behavioural_independence''"
      and l1: "av_behaviour_list s1 = av_behaviour s1 # butlast (av_behaviour_list s)"
      and len: "length (av_behaviour_list s1) = length (av_behaviour_list s)"
      by simp_all
    from ih mode1 have "av_behaviour_list (last (s1 # later)) =
        take (length (av_behaviour_list s1)) (rev (map av_behaviour later) @ av_behaviour_list s1)"
      by simp
    also have "\<dots> = take (length (av_behaviour_list s))
        (rev (map av_behaviour later) @ av_behaviour s1 # butlast (av_behaviour_list s))"
      by (subst len, subst l1, rule refl)
    also have "\<dots> = take (length (av_behaviour_list s))
        (rev (map av_behaviour later) @ av_behaviour s1 # av_behaviour_list s)"
      by (rule take_push) simp
    finally show ?thesis by (simp add: states)
  qed
  from inv win show ?case by blast
qed

text \<open>Claim C7. For an agent constructed with \<open>cultural_inertia \<ge> 0\<close>, the window
  \<open>av_behaviour_list\<close> has \<open>cultural_inertia\<close> entries after construction and after
  every step of a run, in either mode (a default step drops the last entry and puts the new
  \<open>av_behaviour\<close> in front, lemma \<open>next_step_window\<close>). After at least
  \<open>cultural_inertia\<close> steps in the default mode the window holds exactly the
  \<open>av_behaviour\<close> of the last \<open>cultural_inertia\<close> steps, newest first: no entry of the
  construction is left.\<close>

theorem window_length_and_eviction:
  assumes init: "Individual_init params a th w inertia u c r tu tc tr n = Inr s0"
    and inertia: "0 \<le> inertia"
    and run: "trajectory s0 g inputs = Inr states"
  shows "int (length (av_behaviour_list s0)) = inertia \<and>
         (\<forall>s\<in>set states. int (length (av_behaviour_list s)) = inertia \<and>
                           cultural_inertia s = inertia) \<and>
         (param_alpha_change params \<noteq> ''behavioural_independence'' \<and>
          inertia \<le> int (length states) \<longrightarrow>
            av_behaviour_list (last (s0 # states)) =
              take (nat inertia) (rev (map av_behaviour states)))"
proof -
  from Individual_init_window [OF init] have ci: "cultural_inertia s0 = inertia"
    and mode: "alpha_change s0 = param_alpha_change params"
    and l0: "av_behaviour_list s0 = replicate (nat inertia) (av_behaviour s0)"
    by simp_all
  from l0 inertia have len0: "length (av_behaviour_list s0) = nat inertia" by simp
  note tw = trajectory_window [OF run]
  have "av_behaviour_list (last (s0 # states)) = take (nat inertia) (rev (map av_behaviour states))"
    if "param_alpha_change params \<noteq> ''behavioural_independence''"
      and "inertia \<le> int (length states)"
  proof -
    from tw that(1) mode len0 have "av_behaviour_list (last (s0 # states)) =
        take (nat inertia) (rev (map av_behaviour states) @ av_behaviour_list s0)"
      by simp
    moreover have "nat inertia \<le> length (rev (map av_behaviour states))"
      using that(2) by simp
    ultimately show ?thesis by simp
  qed
  with tw ci len0 inertia show ?thesis by auto
qed

theorem window_length_and_eviction_witness:
  "\<exists>states.
     Individual_init memory_params (Vec [0.6]) (Vec [0.2]) [0.75, 0.25] 2
       (Scalar 0) (Scalar 0) (Scalar 0) (Scalar 0) (Scalar 0) (Scalar 0) 4 = Inr memory_agent \<and>
     (0::int) \<le> 2 \<and>
     trajectory memory_agent wild
       [(1, Vec [1], (Vec [0], Vec [0], Vec [0])),
        (2, Vec [0], (Vec [0], Vec [0], Vec [0])),
        (3, Vec [1], (Vec [0], Vec [0], Vec [0]))] = Inr states \<and>
     av_behaviour_list memory_agent = [4 / 25, 4 / 25] \<and>
     map av_behaviour states = [1 / 25, 9 / 25, 9 / 100] \<and>
     map av_behaviour_list states = [[1 / 25, 4 / 25], [9 / 25, 1 / 25], [9 / 100, 9 / 25]] \<and>
     int (length (av_behaviour_list memory_agent)) = 2 \<and>
     list_all (\<lambda>s. int (length (av_behaviour_list s)) = 2 \<and> cultural_inertia s = 2) states \<and>
     param_alpha_change memory_params \<noteq> ''behavioural_independence'' \<and>
     (2::int) \<le> int (length states) \<and>
     av_behaviour_list (last (memory_agent # states)) =
       take (nat 2) (rev (map av_behaviour states)) \<and>
     av_behaviour_list (last (memory_agent # states)) = [9 / 100, 9 / 25]"
proof -
  have "\<exists>states. trajectory memory_agent wild
       [(1, Vec [1], (Vec [0], Vec [0], Vec [0])),
        (2, Vec [0], (Vec [0], Vec [0], Vec [0])),
        (3, Vec [1], (Vec [0], Vec [0], Vec [0]))] = Inr states \<and>
       map av_behaviour states = [1 / 25, 9 / 25, 9 / 100] \<and>
       map av_behaviour_list states = [[1 / 25, 4 / 25], [9 / 25, 1 / 25], [9 / 100, 9 / 25]]"
    by (simp add: model_defs memory_agent_def wild_def power2_eq_square)
  then obtain states where
    run: "trajectory memory_agent wild
       [(1, Vec [1], (Vec [0], Vec [0], Vec [0])),
        (2, Vec [0], (Vec [0], Vec [0], Vec [0])),
        (3, Vec [1], (Vec [0], Vec [0], Vec [0]))] = Inr states"
    and avs: "map av_behaviour states = [1 / 25, 9 / 25, 9 / 100]"
    and windows: "map av_behaviour_list states = [[1 / 25, 4 / 25], [9 / 25, 1 / 25], [9 / 100, 9 / 25]]"
    by (elim exE conjE)
  from arg_cong [OF avs, of length] have three: "length states = 3"
    by simp
  have boot: "av_behaviour_list memory_agent = [4 / 25, 4 / 25]"
    by (simp add: memory_agent_def)
  have mode: "param_alpha_change memory_params \<noteq> ''behavioural_independence''"
    by (simp add: memory_params_def)
  have i: "(0::int) \<le> 2" by simp
  from three have enough: "(2::int) \<le> int (length states)" by simp
  note w = window_length_and_eviction [OF memory_agent_constructed i run]
  from w mode enough have final: "av_behaviour_list (last (memory_agent # states)) =
       take (nat 2) (rev (map av_behaviour states))"
    by simp
  then have "av_behaviour_list (last (memory_agent # states)) = [9 / 100, 9 / 25]"
    by (simp add: avs eval_nat_numeral)
  with w final memory_agent_constructed run avs windows boot mode enough
  show ?thesis by (intro exI [of _ states]) (simp add: list_all_iff)
qed

subsection \<open>Inputs of the wrong length\<close>

lemma isl_and_then: "isl m \<Longrightarrow> isl (and_then m f)"
  by (cases m) simp_all

lemma not_Inr_isl: "(\<And>y. x \<noteq> Inr y) \<Longrightarrow> isl x"
  by (cases x) auto

lemma social_learning_mismatch:
  assumes "length ps \<noteq> 1" and "length cs \<noteq> 1" and "length cs \<noteq> length ps"
  shows "social_learning (Vec ps) old (Vec cs) = Inr y \<Longrightarrow> False"
  using assms by (auto simp: social_learning_def nd_mul_def and_then_eq_Inr)

lemma next_step_component_mismatch:
  assumes phi: "phi_array s = Vec ps" and ps: "length ps \<noteq> 1"
    and cs: "length cs \<noteq> 1" "length cs \<noteq> length ps"
    and mem: "Vec cs \<in> {sc, cu, cc, cr}"
  shows "isl (next_step tn sc (cu, cc, cr) s g)"
proof (rule not_Inr_isl)
  fix y
  show "next_step tn sc (cu, cc, cr) s g \<noteq> Inr y"
  proof
    assume "next_step tn sc (cu, cc, cr) s g = Inr y"
    then have step: "next_step tn sc (cu, cc, cr) s g = Inr (fst y, snd y)" by simp
    from next_step_stages [OF step] obtain s1 s2 s3 s4 s5 where
      1: "update_values (s\<lparr>t := tn\<rparr>) = Inr s1" and 2: "update_attitudes sc s1 = Inr s2" and
      3: "update_pU cu s2 = Inr s3" and 4: "update_pC cc s3 = Inr s4" and
      5: "update_pR cr s4 = Inr s5"
      by blast
    from 1 phi have p1: "phi_array s1 = Vec ps" by (auto dest: update_values_shape)
    from 2 p1 have p2: "phi_array s2 = Vec ps" by (auto dest: update_attitudes_shape)
    from 3 p2 have p3: "phi_array s3 = Vec ps" by (auto dest: update_pU_shape)
    from 4 p3 have p4: "phi_array s4 = Vec ps" by (auto dest: update_pC_shape)
    note bad = social_learning_mismatch [OF ps cs]
    from mem consider "sc = Vec cs" | "cu = Vec cs" | "cc = Vec cs" | "cr = Vec cs" by auto
    then show False
    proof cases
      case 1
      with 2 p1 bad show False by (auto simp: update_attitudes_def and_then_eq_Inr)
    next
      case 2
      with 3 p2 bad show False by (auto simp: update_pU_def and_then_eq_Inr)
    next
      case 3
      with 4 p3 bad show False by (auto simp: update_pC_def and_then_eq_Inr)
    next
      case 4
      with 5 p4 bad show False by (auto simp: update_pR_def and_then_eq_Inr)
    qed
  qed
qed

lemma init_memory_keeps_inputs:
  "init_memory s = Inr s' \<Longrightarrow>
     normalized_discount_vector s' = normalized_discount_vector s \<and>
     attitudes s' = attitudes s \<and> thresholds s' = thresholds s \<and> M s' = M s"
  by (auto simp: init_memory_def and_then_eq_Inr split: if_splits)

lemma Individual_init_stages:
  assumes "Individual_init params a th w inertia u c r tu tc tr n = Inr s0"
  shows "\<exists>s2 v s3 i total es.
           normalized_discount_vector s2 = w \<and> cultural_inertia s2 = inertia \<and>
           attitudes s2 = a \<and> thresholds s2 = th \<and> M s2 = param_M params \<and>
           nd_sub a th = Inr v \<and>
           calc_av_behaviour (s2\<lparr>values_M := v\<rparr>) = Inr s3 \<and>
           calc_identity
             (s3\<lparr>av_behaviour_list := replicate (nat (cultural_inertia s3)) (av_behaviour s3)\<rparr>)
             = Inr i \<and>
           calc_total_emissions_flow
             (s3\<lparr>av_behaviour_list := replicate (nat (cultural_inertia s3)) (av_behaviour s3),
                 identity := i\<rparr>) = Inr (total, es)"
proof -
  from assms obtain s1 s2 v s3 i total es where
    m: "init_memory s1 = Inr s2" and s1: "cultural_inertia s1 = inertia"
      "normalized_discount_vector s1 = w" "attitudes s1 = a" "thresholds s1 = th"
      "M s1 = param_M params"
    and sub: "nd_sub (attitudes s2) (thresholds s2) = Inr v"
    and av: "calc_av_behaviour (s2\<lparr>values_M := v\<rparr>) = Inr s3"
    and idn: "calc_identity
             (s3\<lparr>av_behaviour_list := replicate (nat (cultural_inertia s3)) (av_behaviour s3)\<rparr>)
             = Inr i"
    and em: "calc_total_emissions_flow
             (s3\<lparr>av_behaviour_list := replicate (nat (cultural_inertia s3)) (av_behaviour s3),
                 identity := i\<rparr>) = Inr (total, es)"
    unfolding Individual_init_def and_then_eq_Inr by (auto simp del: replicate.simps)
  from init_memory_keeps [OF m] init_memory_keeps_inputs [OF m] s1 sub av idn em
  show ?thesis by auto
qed

lemma behavioural_emissions_needs:
  assumes "behavioural_emissions (Vec vs) [0..<m] = Inr es"
  shows "m \<le> length vs"
proof (rule ccontr)
  assume "\<not> m \<le> length vs"
  then have k: "length vs < m" by simp
  from behavioural_emissions_entries [OF assms]
  have "\<forall>k<m. \<exists>x. nd_index (Vec vs) k = Inr x" by auto
  with k have "\<exists>x. nd_index (Vec vs) (length vs) = Inr x" by blast
  then show False by simp
qed

lemma Individual_init_discount_mismatch:
  assumes "0 \<le> inertia" and "int (length w) \<noteq> inertia"
  shows "isl (Individual_init params a th w inertia u c r tu tc tr n)"
proof (rule not_Inr_isl)
  fix s0
  show "Individual_init params a th w inertia u c r tu tc tr n \<noteq> Inr s0"
  proof
    assume "Individual_init params a th w inertia u c r tu tc tr n = Inr s0"
    from Individual_init_stages [OF this] obtain s2 v s3 i where
      s2: "normalized_discount_vector s2 = w" "cultural_inertia s2 = inertia"
      and av: "calc_av_behaviour (s2\<lparr>values_M := v\<rparr>) = Inr s3"
      and idn: "calc_identity
             (s3\<lparr>av_behaviour_list := replicate (nat (cultural_inertia s3)) (av_behaviour s3)\<rparr>)
             = Inr i"
      by blast
    from av s2 have "normalized_discount_vector s3 = w" "cultural_inertia s3 = inertia"
      by (auto simp: calc_av_behaviour_def and_then_eq_Inr)
    with idn have "length w = nat inertia"
      by (auto simp: calc_identity_def matmul_vec_def split: if_splits)
    with assms show False by simp
  qed
qed

lemma Individual_init_draws_mismatch:
  assumes "length as \<noteq> 1" and "length ths \<noteq> 1" and "length as \<noteq> length ths"
  shows "isl (Individual_init params (Vec as) (Vec ths) w inertia u c r tu tc tr n)"
proof (rule not_Inr_isl)
  fix s0
  show "Individual_init params (Vec as) (Vec ths) w inertia u c r tu tc tr n \<noteq> Inr s0"
  proof
    assume "Individual_init params (Vec as) (Vec ths) w inertia u c r tu tc tr n = Inr s0"
    from Individual_init_stages [OF this] obtain v where "nd_sub (Vec as) (Vec ths) = Inr v"
      by blast
    with assms show False by (simp add: nd_sub_def)
  qed
qed

lemma Individual_init_draws_short:
  assumes "length ths = length as" and "int (length as) < param_M params"
  shows "isl (Individual_init params (Vec as) (Vec ths) w inertia u c r tu tc tr n)"
proof (rule not_Inr_isl)
  fix s0
  show "Individual_init params (Vec as) (Vec ths) w inertia u c r tu tc tr n \<noteq> Inr s0"
  proof
    assume "Individual_init params (Vec as) (Vec ths) w inertia u c r tu tc tr n = Inr s0"
    from Individual_init_stages [OF this] obtain s2 v s3 i total es where
      s2: "M s2 = param_M params"
      and sub: "nd_sub (Vec as) (Vec ths) = Inr v"
      and av: "calc_av_behaviour (s2\<lparr>values_M := v\<rparr>) = Inr s3"
      and em: "calc_total_emissions_flow
             (s3\<lparr>av_behaviour_list := replicate (nat (cultural_inertia s3)) (av_behaviour s3),
                 identity := i\<rparr>) = Inr (total, es)"
      by blast
    from sub assms(1) obtain vs where v: "v = Vec vs" and lv: "length vs = length as"
      by (auto simp: nd_sub_def)
    from av s2 v have s3: "M s3 = param_M params" "values_M s3 = Vec vs"
      by (auto simp: calc_av_behaviour_def and_then_eq_Inr)
    from em s3 have "behavioural_emissions (Vec vs) [0..<nat (param_M params)] = Inr es"
      by (auto simp: calc_total_emissions_flow_def and_then_eq_Inr)
    from behavioural_emissions_needs [OF this] lv assms(2) show False by simp
  qed
qed

text \<open>Claim C9, amended. The agent checks no length itself; an input is refused where
  numpy cannot broadcast or contract it. A step signals an error when \<open>phi_array\<close> is a
  sequence of a length other than 1 and \<open>social_component\<close> or an element of
  \<open>TA_component\<close> is a sequence whose length is neither 1 nor that of \<open>phi_array\<close>. The
  constructor signals an error when the length of \<open>normalized_discount_vector\<close> differs
  from \<open>cultural_inertia \<ge> 0\<close>, when the initial attitudes and thresholds have different
  lengths neither of which is 1, and when they have one length that is less than \<open>M\<close>.\<close>

theorem unbroadcastable_inputs_rejected:
  "(phi_array s = Vec ps \<and> length ps \<noteq> 1 \<and> length cs \<noteq> 1 \<and> length cs \<noteq> length ps \<and>
      Vec cs \<in> {sc, cu, cc, cr} \<longrightarrow> isl (next_step tn sc (cu, cc, cr) s g)) \<and>
   (0 \<le> inertia \<and> int (length w) \<noteq> inertia \<longrightarrow>
      isl (Individual_init params a th w inertia u c r tu tc tr n)) \<and>
   (length as \<noteq> 1 \<and> length ths \<noteq> 1 \<and> length as \<noteq> length ths \<longrightarrow>
      isl (Individual_init params (Vec as) (Vec ths) w inertia u c r tu tc tr n)) \<and>
   (length ths = length as \<and> int (length as) < param_M params \<longrightarrow>
      isl (Individual_init params (Vec as) (Vec ths) w inertia u c r tu tc tr n))"
  using next_step_component_mismatch [of s ps cs sc cu cc cr tn g]
    Individual_init_discount_mismatch [of inertia w params a th u c r tu tc tr n]
    Individual_init_draws_mismatch [of as ths params w inertia u c r tu tc tr n]
    Individual_init_draws_short [of ths as params w inertia u c r tu tc tr n]
  by blast


theorem unbroadcastable_inputs_rejected_witness:
  "phi_array independent_agent = Vec [0.5, 0.5] \<and> length [0.5, 0.5 :: real] \<noteq> 1 \<and>
   length [1, 2, 3 :: real] \<noteq> 1 \<and> length [1, 2, 3 :: real] \<noteq> length [0.5, 0.5 :: real] \<and>
   Vec [1, 2, 3] \<in> {Vec [1, 2, 3], Vec [0, 0], Vec [0, 0], Vec [0, 0]} \<and>
   isl (next_step 1 (Vec [1, 2, 3]) (Vec [0, 0], Vec [0, 0], Vec [0, 0]) independent_agent still) \<and>
   (0::int) \<le> 2 \<and> int (length [1::real]) \<noteq> 2 \<and>
   length [0.2, 0.8 :: real] \<noteq> 1 \<and> length [0.5, 0.5, 0.5 :: real] \<noteq> 1 \<and>
   length [0.2, 0.8 :: real] \<noteq> length [0.5, 0.5, 0.5 :: real] \<and>
   isl (Individual_init independent_params (Vec [0.2, 0.8]) (Vec [0.5, 0.5, 0.5]) [1] 2
          (Vec [0, 0]) (Vec [0, 0]) (Vec [0, 0]) (Vec [0, 0]) (Vec [0, 0]) (Vec [0, 0]) 3) \<and>
   length [0.2 :: real] = length [0.6 :: real] \<and>
   int (length [0.6 :: real]) < param_M independent_params \<and>
   isl (Individual_init independent_params (Vec [0.6]) (Vec [0.2]) [0.75, 0.25] 2
          (Vec [0, 0]) (Vec [0, 0]) (Vec [0, 0]) (Vec [0, 0]) (Vec [0, 0]) (Vec [0, 0]) 3)"
  using unbroadcastable_inputs_rejected [where s = independent_agent and ps = "[0.5, 0.5]"
      and cs = "[1, 2, 3]" and sc = "Vec [1, 2, 3]" and cu = "Vec [0, 0]" and cc = "Vec [0, 0]"
      and cr = "Vec [0, 0]" and tn = 1 and g = still and inertia = 2 and w = "[1]"
      and params = independent_params and a = "Vec [0.2, 0.8]" and th = "Vec [0.5, 0.5, 0.5]"
      and u = "Vec [0, 0]" and c = "Vec [0, 0]" and r = "Vec [0, 0]" and tu = "Vec [0, 0]"
      and tc = "Vec [0, 0]" and tr = "Vec [0, 0]" and n = 3
      and as = "[0.2, 0.8]" and ths = "[0.5, 0.5, 0.5]"]
    unbroadcastable_inputs_rejected [where inertia = 2 and w = "[0.75, 0.25]"
      and params = independent_params
      and u = "Vec [0, 0]" and c = "Vec [0, 0]" and r = "Vec [0, 0]" and tu = "Vec [0, 0]"
      and tc = "Vec [0, 0]" and tr = "Vec [0, 0]" and n = 3
      and as = "[0.6]" and ths = "[0.2]"]
  by (simp add: independent_agent_def independent_params_def)

text \<open>Claim C9 as stated fails. An agent with two behaviours takes a
  \<open>social_component\<close> of length 1: the step returns and the single entry has been
  broadcast into both attitudes. The constructor with \<open>M = 1\<close> takes initial attitudes and
  thresholds of length 2: it returns, and the emissions cover the first behaviour only.\<close>

theorem mismatched_inputs_accepted:
  "length [1 :: real] \<noteq> nat (M independent_agent) \<and>
   \<not> isl (next_step 1 (Vec [1]) (Vec [0, 0], Vec [0, 0], Vec [0, 0]) independent_agent still) \<and>
   attitudes (fst (projr
     (next_step 1 (Vec [1]) (Vec [0, 0], Vec [0, 0], Vec [0, 0]) independent_agent still)))
     = Vec [0.6, 0.9] \<and>
   length [0.6, 0.1 :: real] \<noteq> nat (param_M scenario_params) \<and>
   \<not> isl (Individual_init scenario_params (Vec [0.6, 0.1]) (Vec [0.2, 0.2]) [1] 1
            (Scalar 0) (Scalar 0) (Scalar 0) (Scalar 0) (Scalar 0) (Scalar 0) 1) \<and>
   behavioural_carbon_emissions (projr
     (Individual_init scenario_params (Vec [0.6, 0.1]) (Vec [0.2, 0.2]) [1] 1
        (Scalar 0) (Scalar 0) (Scalar 0) (Scalar 0) (Scalar 0) (Scalar 0) 1)) = [0.3]"
  by (simp add: model_defs independent_agent_def scenario_params_def still_def
      eval_nat_numeral)

subsection \<open>The history\<close>

text \<open>Claim C3. With \<open>save_timeseries_data\<close> set and \<open>t mod compression_factor = 0\<close>,
  a step of the saving agent appends the current value to the logs of the values, the
  attitudes, the thresholds, \<open>TA\<close>, \<open>av_behaviour\<close>, the identity and the two emissions.
  The log \<open>history_thresholdsTA\<close> that the constructor started gains no entry, although
  \<open>thresholdsTA\<close> has moved from 0 to 0.4.\<close>

theorem thresholdsTA_history_not_appended:
  "\<exists>s' g' h'.
     save_timeseries_data saving_agent \<and> 1 mod compression_factor saving_agent = 0 \<and>
     next_step 1 (Vec [0.9]) (Vec [0], Vec [0], Vec [0]) saving_agent wild = Inr (s', g') \<and>
     histories s' = Some h' \<and>
     history_behaviour_values h' = [[0.4], [0.2]] \<and>
     history_behaviour_attitudes h' = [[0.6], [0.9]] \<and>
     history_behaviour_thresholds h' = [[0.2], [1]] \<and>
     history_TA h' = [Scalar 0, Vec [0]] \<and>
     history_av_behaviour h' = [0.16, 0.01] \<and>
     history_identity h' = [0.16, 0.01] \<and>
     history_individual_carbon_emissions_flow h' = [0.3, 0.4] \<and>
     history_behavioural_carbon_emissions h' = [[0.3], [0.4]] \<and>
     thresholdsTA saving_agent = Inr (Scalar 0) \<and>
     thresholdsTA s' = Inr (Scalar 0.4) \<and>
     history_thresholdsTA h' = [Scalar 0]"
  by (simp add: model_defs saving_agent_def wild_def power2_eq_square)

end
